theory Spec2Isabelle
  imports Main "HOL-Library.Word" "HOL-Library.Log_Nat"
begin

section \<open>JavaScript numbers\<close>

text \<open>
  A TypeScript \<open>number\<close> is an IEEE 754 binary64 value: one sign bit, eleven exponent
  bits and fifty-two fraction bits. Every bit pattern is a number, so the model has no
  ill-formed values. Arithmetic decodes the operands, computes the exact result on
  integers and rounds it to the nearest representable value, ties to even.
\<close>

datatype double = Double (sign_bit: bool) (expo: "11 word") (fraction: "52 word")

text \<open>
  The decoded view: \<open>Fin s m e\<close> is the number \<open>(-1)^s * m * 2^e\<close>.
\<close>

datatype fp = Fin bool nat int | Infty bool | NaN

definition decode :: "double \<Rightarrow> fp" where
  "decode x =
     (if unat (expo x) = 2047 then (if unat (fraction x) = 0 then Infty (sign_bit x) else NaN)
      else if unat (expo x) = 0 then Fin (sign_bit x) (unat (fraction x)) (- 1074)
      else Fin (sign_bit x) (2 ^ 52 + unat (fraction x)) (int (unat (expo x)) - 1075))"

fun encode :: "fp \<Rightarrow> double" where
  "encode NaN = Double False 2047 (2 ^ 51)"
| "encode (Infty s) = Double s 2047 0"
| "encode (Fin s m e) =
     (if m < 2 ^ 52 then Double s 0 (of_nat m)
      else Double s (of_int (e + 1075)) (of_nat (m - 2 ^ 52)))"

text \<open>\<open>floor_log2 n d\<close> is the integer \<open>k\<close> with \<open>2^k \<le> n / d < 2^(k + 1)\<close>, for positive \<open>n\<close> and \<open>d\<close>.\<close>

definition floor_log2 :: "nat \<Rightarrow> nat \<Rightarrow> int" where
  "floor_log2 n d =
     (let k = int (floorlog 2 n) - int (floorlog 2 d)
      in if (if 0 \<le> k then d * 2 ^ nat k \<le> n else d \<le> n * 2 ^ nat (- k)) then k else k - 1)"

definition round_half_even :: "nat \<Rightarrow> nat \<Rightarrow> nat" where
  "round_half_even n d =
     (let q = n div d; r = n mod d
      in if 2 * r < d then q else if d < 2 * r then q + 1 else if even q then q else q + 1)"

text \<open>
  \<open>round_fp s n d\<close> rounds the rational \<open>(-1)^s * n / d\<close> to binary64: a 53-bit
  significand for a normal result, the fixed exponent \<open>-1074\<close> for a subnormal one,
  infinity beyond the largest finite value.
\<close>

definition round_fp :: "bool \<Rightarrow> nat \<Rightarrow> nat \<Rightarrow> fp" where
  "round_fp s n d =
     (if n = 0 then Fin s 0 (- 1074)
      else
        let k = floor_log2 n d;
            e = max (k - 52) (- 1074);
            m = (if 0 \<le> e then round_half_even n (d * 2 ^ nat e)
                 else round_half_even (n * 2 ^ nat (- e)) d);
            e' = (if m = 2 ^ 53 then e + 1 else e);
            m' = (if m = 2 ^ 53 then 2 ^ 52 else m)
        in if 971 < e' then Infty s else Fin s m' e')"

definition signed_int :: "bool \<Rightarrow> nat \<Rightarrow> int" where
  "signed_int s m = (if s then - int m else int m)"

fun fp_add :: "fp \<Rightarrow> fp \<Rightarrow> fp" where
  "fp_add NaN _ = NaN"
| "fp_add _ NaN = NaN"
| "fp_add (Infty s) (Infty t) = (if s = t then Infty s else NaN)"
| "fp_add (Infty s) (Fin _ _ _) = Infty s"
| "fp_add (Fin _ _ _) (Infty t) = Infty t"
| "fp_add (Fin s1 m1 e1) (Fin s2 m2 e2) =
     (let e = min e1 e2;
          i = signed_int s1 m1 * 2 ^ nat (e1 - e) + signed_int s2 m2 * 2 ^ nat (e2 - e)
      in if i = 0 then Fin (s1 \<and> s2) 0 (- 1074)
         else round_fp (i < 0) (nat \<bar>i\<bar> * 2 ^ nat e) (2 ^ nat (- e)))"

fun fp_neg :: "fp \<Rightarrow> fp" where
  "fp_neg NaN = NaN"
| "fp_neg (Infty s) = Infty (\<not> s)"
| "fp_neg (Fin s m e) = Fin (\<not> s) m e"

fun fp_div :: "fp \<Rightarrow> fp \<Rightarrow> fp" where
  "fp_div NaN _ = NaN"
| "fp_div _ NaN = NaN"
| "fp_div (Infty s) (Infty t) = NaN"
| "fp_div (Infty s) (Fin t _ _) = Infty (s \<noteq> t)"
| "fp_div (Fin s _ _) (Infty t) = Fin (s \<noteq> t) 0 (- 1074)"
| "fp_div (Fin s1 m1 e1) (Fin s2 m2 e2) =
     (if m2 = 0 then (if m1 = 0 then NaN else Infty (s1 \<noteq> s2))
      else round_fp (s1 \<noteq> s2) (m1 * 2 ^ nat (e1 - e2)) (m2 * 2 ^ nat (e2 - e1)))"

text \<open>Comparison: anything compared with NaN is false; the two zeros are equal.\<close>

fun fp_less :: "fp \<Rightarrow> fp \<Rightarrow> bool" where
  "fp_less NaN _ = False"
| "fp_less _ NaN = False"
| "fp_less (Infty s) (Infty t) = (s \<and> \<not> t)"
| "fp_less (Infty s) (Fin _ _ _) = s"
| "fp_less (Fin _ _ _) (Infty t) = (\<not> t)"
| "fp_less (Fin s1 m1 e1) (Fin s2 m2 e2) =
     (let e = min e1 e2
      in signed_int s1 m1 * 2 ^ nat (e1 - e) < signed_int s2 m2 * 2 ^ nat (e2 - e))"

text \<open>The operators of the language: \<open>a + b\<close>, \<open>a - b\<close>, \<open>a / b\<close>, \<open>a < b\<close>, \<open>a > b\<close>.\<close>

definition js_add :: "double \<Rightarrow> double \<Rightarrow> double" where
  "js_add a b = encode (fp_add (decode a) (decode b))"

definition js_sub :: "double \<Rightarrow> double \<Rightarrow> double" where
  "js_sub a b = encode (fp_add (decode a) (fp_neg (decode b)))"

definition js_div :: "double \<Rightarrow> double \<Rightarrow> double" where
  "js_div a b = encode (fp_div (decode a) (decode b))"

definition js_lt :: "double \<Rightarrow> double \<Rightarrow> bool" where
  "js_lt a b = fp_less (decode a) (decode b)"

definition js_gt :: "double \<Rightarrow> double \<Rightarrow> bool" where
  "js_gt a b = fp_less (decode b) (decode a)"

text \<open>
  A decimal literal denotes the double nearest to it: \<open>js_lit 105 100\<close> is the
  literal \<open>1.05\<close>, \<open>js_lit 2 1\<close> the literal \<open>2\<close>.
\<close>

definition js_lit :: "nat \<Rightarrow> nat \<Rightarrow> double" where
  "js_lit n d = encode (round_fp False n d)"

definition js_nan :: double where
  "js_nan = encode NaN"

text \<open>\<open>Infinity\<close> is \<open>js_infinity False\<close>, \<open>-Infinity\<close> is \<open>js_infinity True\<close>.\<close>

definition js_infinity :: "bool \<Rightarrow> double" where
  "js_infinity negative = encode (Infty negative)"

text \<open>
  A property that an object does not have reads as \<open>undefined\<close>, and the arithmetic
  operators convert \<open>undefined\<close> to NaN.
\<close>

definition to_number :: "double option \<Rightarrow> double" where
  "to_number v = (case v of None \<Rightarrow> js_nan | Some x \<Rightarrow> x)"

definition is_nan :: "double \<Rightarrow> bool" where
  "is_nan x = (case decode x of NaN \<Rightarrow> True | _ \<Rightarrow> False)"

definition is_infinity :: "double \<Rightarrow> bool" where
  "is_infinity x = (case decode x of Infty _ \<Rightarrow> True | _ \<Rightarrow> False)"

definition is_finite :: "double \<Rightarrow> bool" where
  "is_finite x = (case decode x of Fin _ _ _ \<Rightarrow> True | _ \<Rightarrow> False)"

definition is_zero :: "double \<Rightarrow> bool" where
  "is_zero x = (case decode x of Fin _ m _ \<Rightarrow> m = 0 | _ \<Rightarrow> False)"

section \<open>The quote snapshot\<close>

text \<open>
  Modelled from the spec: the declaration of \<open>ServerRespond\<close> (and of its \<open>Order\<close>)
  lives in DataStreamer, which is not among the source files. The spec's QuoteSnapshot
  carries a top-of-book ask price, a top-of-book bid price and a timestamp; the fields
  are the ones \<open>generateRow\<close> reads: \<open>top_ask.price\<close>, \<open>top_bid.price\<close> and
  \<open>timestamp\<close>. A field that may be missing at run time is an option: \<open>None\<close> is
  \<open>undefined\<close>. Timestamps are values of a linearly ordered type, compared with
  \<open>>\<close>.
\<close>

record Order =
  price :: "double option"

record 't ServerRespond =
  top_ask :: "Order option"
  top_bid :: "Order option"
  timestamp :: 't

section \<open>DataManipulator\<close>

record 't Row =
  price_abc :: double
  price_def :: double
  ratio :: double
  timestamp :: 't
  upper_bound :: double
  lower_bound :: double
  trigger_alert :: "double option"

text \<open>
  The code defines no error of its own and checks nothing: the only failure is the
  TypeError that the language raises when a property is read from \<open>undefined\<close>.
\<close>

datatype js_error = TypeError

text \<open>\<open>serverRespond[i]\<close>: an index beyond the end of an array reads \<open>undefined\<close>.\<close>

definition js_index :: "'a list \<Rightarrow> nat \<Rightarrow> 'a option" where
  "js_index xs i = (if i < length xs then Some (xs ! i) else None)"

text \<open>\<open>serverRespond[i].top_ask.price\<close> (or \<open>top_bid\<close>): two property reads that throw on \<open>undefined\<close>, and one that does not.\<close>

definition price_at ::
  "'t ServerRespond list \<Rightarrow> nat \<Rightarrow> ('t ServerRespond \<Rightarrow> Order option) \<Rightarrow> js_error + double option" where
  "price_at serverRespond i side =
     (case js_index serverRespond i of
        None \<Rightarrow> Inl TypeError
      | Some q \<Rightarrow> (case side q of None \<Rightarrow> Inl TypeError | Some ord \<Rightarrow> Inr (price ord)))"

text \<open>\<open>(serverRespond[i].top_ask.price + serverRespond[i].top_bid.price) / 2\<close>, evaluated left to right.\<close>

definition mid_price :: "'t ServerRespond list \<Rightarrow> nat \<Rightarrow> js_error + double" where
  "mid_price serverRespond i =
     (case price_at serverRespond i top_ask of
        Inl err \<Rightarrow> Inl err
      | Inr ask \<Rightarrow>
          (case price_at serverRespond i top_bid of
             Inl err \<Rightarrow> Inl err
           | Inr bid \<Rightarrow> Inr (js_div (js_add (to_number ask) (to_number bid)) (js_lit 2 1))))"

definition generateRow :: "('t::linorder) ServerRespond list \<Rightarrow> js_error + 't Row" where
  "generateRow serverRespond =
     (case mid_price serverRespond 0 of
        Inl err \<Rightarrow> Inl err
      | Inr priceABC \<Rightarrow>
          (case mid_price serverRespond 1 of
             Inl err \<Rightarrow> Inl err
           | Inr priceDEF \<Rightarrow>
               (let ratio = js_div priceABC priceDEF;
                    upperBound = js_add (js_lit 1 1) (js_lit 5 100);
                    lowerBound = js_sub (js_lit 1 1) (js_lit 5 100)
                in Inr \<lparr> price_abc = priceABC,
                         price_def = priceDEF,
                         ratio = ratio,
                         timestamp =
                           (if ServerRespond.timestamp (serverRespond ! 0)
                                 > ServerRespond.timestamp (serverRespond ! 1)
                            then ServerRespond.timestamp (serverRespond ! 0)
                            else ServerRespond.timestamp (serverRespond ! 1)),
                         upper_bound = upperBound,
                         lower_bound = lowerBound,
                         trigger_alert =
                           (if js_gt ratio upperBound \<or> js_lt ratio lowerBound
                            then Some ratio else None) \<rparr>)))"

section \<open>Graph\<close>

text \<open>
  The fields of the interface \<open>Row\<close>, in the order of its declaration, with their
  TypeScript types.
\<close>

datatype ts_type = TNumber | TDate | TNumberOrUndefined

definition Row_fields :: "(string \<times> ts_type) list" where
  "Row_fields =
     [(''price_abc'', TNumber), (''price_def'', TNumber), (''ratio'', TNumber),
      (''timestamp'', TDate), (''upper_bound'', TNumber), (''lower_bound'', TNumber),
      (''trigger_alert'', TNumberOrUndefined)]"

text \<open>
  The perspective table is an external collaborator. What the component can do to it
  is create it from a schema and pass batches of rows to \<open>update\<close>, so its state is
  the schema and the batches received so far, oldest first.
\<close>

record 't Table =
  schema :: "(string \<times> string) list"
  updates :: "'t Row list list"

text \<open>
  The viewer element takes its configuration as attributes whose text is JSON. An
  attribute maps to the JSON value that its text denotes; \<open>JSON.stringify\<close> of an
  object literal denotes that object.
\<close>

datatype json = JString string | JArray "json list" | JObject "(string \<times> json) list"

record PerspectiveViewerElement =
  loaded :: bool
  attributes :: "string \<rightharpoonup> json"

record 't Graph =
  table :: "'t Table option"

definition the_schema :: "(string \<times> string) list" where
  "the_schema =
     [(''price_abc'', ''float''), (''price_def'', ''float''), (''upper_bound'', ''float''),
      (''lower_bound'', ''float''), (''trigger_alert'', ''float''), (''ratio'', ''float''),
      (''timestamp'', ''date'')]"

text \<open>
  \<open>perspective\<close> is the test \<open>window.perspective && window.perspective.worker()\<close>;
  \<open>elem\<close> is the viewer element found in the document.
\<close>

definition componentDidMount ::
  "bool \<Rightarrow> 't Graph \<times> PerspectiveViewerElement \<Rightarrow> 't Graph \<times> PerspectiveViewerElement" where
  "componentDidMount perspective st =
     (let this = fst st; elem = snd st;
          this = (if perspective
                  then this\<lparr>table := Some \<lparr>schema = the_schema, updates = []\<rparr>\<rparr>
                  else this)
      in case table this of
           None \<Rightarrow> (this, elem)
         | Some t \<Rightarrow>
             (this,
              elem\<lparr>loaded := True,
                   attributes := (attributes elem)
                     (''view'' \<mapsto> JString ''y_line'',
                      ''row-pivots'' \<mapsto> JArray [JString ''timestamp''],
                      ''columns'' \<mapsto>
                        JArray [JString ''ratio'', JString ''lower_bound'',
                                JString ''upper_bound'', JString ''trigger_alert''],
                      ''aggregates'' \<mapsto>
                        JObject [(''price_abc'', JString ''avg''),
                                 (''price_def'', JString ''avg''),
                                 (''upper_bound'', JString ''avg''),
                                 (''lower_bound'', JString ''avg''),
                                 (''trigger_alert'', JString ''avg''),
                                 (''ratio'', JString ''avg''),
                                 (''timestamp'', JString ''distinct count'')])\<rparr>))"

text \<open>
  \<open>data\<close> is \<open>this.props.data\<close>. The argument of \<open>update\<close> is evaluated before the
  call, so an exception of \<open>generateRow\<close> leaves the table as it was.
\<close>

definition componentDidUpdate ::
  "('t::linorder) ServerRespond list \<Rightarrow> 't Graph \<Rightarrow> js_error + 't Graph" where
  "componentDidUpdate data this =
     (case table this of
        None \<Rightarrow> Inr this
      | Some t \<Rightarrow>
          (case generateRow data of
             Inl err \<Rightarrow> Inl err
           | Inr row \<Rightarrow> Inr (this\<lparr>table := Some (t\<lparr>updates := updates t @ [[row]]\<rparr>)\<rparr>)))"

text \<open>What the sink has been sent so far, and what a view configuration says.\<close>

definition submitted :: "'t Graph \<Rightarrow> 't Row list list" where
  "submitted this = (case table this of None \<Rightarrow> [] | Some t \<Rightarrow> updates t)"

definition aggregate_of :: "PerspectiveViewerElement \<Rightarrow> string \<Rightarrow> json option" where
  "aggregate_of elem f =
     (case attributes elem ''aggregates'' of Some (JObject kvs) \<Rightarrow> map_of kvs f | _ \<Rightarrow> None)"

section \<open>The reducer on the heap\<close>

text \<open>
  In the running program the argument of \<open>generateRow\<close> is a reference: an array
  object that holds references to quote objects, all of them mutable and shared with
  the caller. Here the same method is written with the heap made explicit. A world is
  the array objects and the quote objects by address, together with whatever else the
  program holds (the extension of the record); every step takes a world and returns
  one, with its result or the exception it throws.
\<close>

type_synonym addr = nat

record 't world =
  arrays :: "addr \<Rightarrow> addr list"
  quotes :: "addr \<Rightarrow> 't ServerRespond"

type_synonym ('w, 'a) js = "'w \<Rightarrow> (js_error + 'a) \<times> 'w"

definition js_return :: "'a \<Rightarrow> ('w, 'a) js" where
  "js_return x w = (Inr x, w)"

definition js_throw :: "js_error \<Rightarrow> ('w, 'a) js" where
  "js_throw err w = (Inl err, w)"

text \<open>Sequencing: an exception ends the computation in the world reached so far.\<close>

definition js_bind :: "('w, 'a) js \<Rightarrow> ('a \<Rightarrow> ('w, 'b) js) \<Rightarrow> ('w, 'b) js" where
  "js_bind m f w = (case m w of (Inl err, w') \<Rightarrow> (Inl err, w') | (Inr x, w') \<Rightarrow> f x w')"

text \<open>
  The three reads of the method: \<open>serverRespond[i]\<close>, which is \<open>undefined\<close> beyond
  the end of the array; a property of the element, which throws on \<open>undefined\<close>; and
  \<open>.price\<close> of an order object, which throws on \<open>undefined\<close>.
\<close>

definition read_element :: "addr \<Rightarrow> nat \<Rightarrow> (('t, 'z) world_scheme, addr option) js" where
  "read_element serverRespond i w = (Inr (js_index (arrays w serverRespond) i), w)"

definition read_property ::
  "addr option \<Rightarrow> ('t ServerRespond \<Rightarrow> 'a) \<Rightarrow> (('t, 'z) world_scheme, 'a) js" where
  "read_property element field w =
     (case element of None \<Rightarrow> (Inl TypeError, w) | Some a \<Rightarrow> (Inr (field (quotes w a)), w))"

definition read_price :: "Order option \<Rightarrow> ('w, double option) js" where
  "read_price order_object =
     (case order_object of None \<Rightarrow> js_throw TypeError | Some ord \<Rightarrow> js_return (price ord))"

definition price_at_heap ::
  "addr \<Rightarrow> nat \<Rightarrow> ('t ServerRespond \<Rightarrow> Order option) \<Rightarrow> (('t, 'z) world_scheme, double option) js" where
  "price_at_heap serverRespond i side =
     js_bind (read_element serverRespond i) (\<lambda>element.
     js_bind (read_property element side) read_price)"

definition mid_price_heap :: "addr \<Rightarrow> nat \<Rightarrow> (('t, 'z) world_scheme, double) js" where
  "mid_price_heap serverRespond i =
     js_bind (price_at_heap serverRespond i top_ask) (\<lambda>ask.
     js_bind (price_at_heap serverRespond i top_bid) (\<lambda>bid.
     js_return (js_div (js_add (to_number ask) (to_number bid)) (js_lit 2 1))))"

definition timestamp_heap :: "addr \<Rightarrow> nat \<Rightarrow> (('t, 'z) world_scheme, 't) js" where
  "timestamp_heap serverRespond i =
     js_bind (read_element serverRespond i) (\<lambda>element.
     read_property element ServerRespond.timestamp)"

text \<open>
  The body of \<open>generateRow\<close>, read for read: the four prices, then the two
  timestamps of the comparison and the one that the conditional selects.
\<close>

definition generateRow_heap ::
  "addr \<Rightarrow> (('t::linorder, 'z) world_scheme, 't Row) js" where
  "generateRow_heap serverRespond =
     js_bind (mid_price_heap serverRespond 0) (\<lambda>priceABC.
     js_bind (mid_price_heap serverRespond 1) (\<lambda>priceDEF.
     let ratio = js_div priceABC priceDEF;
         upperBound = js_add (js_lit 1 1) (js_lit 5 100);
         lowerBound = js_sub (js_lit 1 1) (js_lit 5 100)
     in
     js_bind (timestamp_heap serverRespond 0) (\<lambda>t0.
     js_bind (timestamp_heap serverRespond 1) (\<lambda>t1.
     js_bind (if t0 > t1 then timestamp_heap serverRespond 0
              else timestamp_heap serverRespond 1) (\<lambda>later.
     js_return \<lparr> price_abc = priceABC,
                 price_def = priceDEF,
                 ratio = ratio,
                 timestamp = later,
                 upper_bound = upperBound,
                 lower_bound = lowerBound,
                 trigger_alert =
                   (if js_gt ratio upperBound \<or> js_lt ratio lowerBound
                    then Some ratio else None) \<rparr>)))))"

section \<open>Concrete inputs\<close>

text \<open>A quote whose ask and bid are whole numbers, at a timestamp in milliseconds.\<close>

definition quote :: "nat \<Rightarrow> nat \<Rightarrow> int \<Rightarrow> int ServerRespond" where
  "quote a b t =
     \<lparr> top_ask = Some \<lparr> price = Some (js_lit a 1) \<rparr>,
       top_bid = Some \<lparr> price = Some (js_lit b 1) \<rparr>,
       ServerRespond.timestamp = t \<rparr>"

text \<open>A quote whose order objects are there and carry no price.\<close>

definition unpriced_quote :: "int \<Rightarrow> int ServerRespond" where
  "unpriced_quote t =
     \<lparr> top_ask = Some \<lparr> price = None \<rparr>,
       top_bid = Some \<lparr> price = None \<rparr>,
       ServerRespond.timestamp = t \<rparr>"

text \<open>
  The rows that the scenarios of the spec produce: A (101/99 against 50/50), B
  (parity), C (104/102 against 100/100), D (instrument B at 0, with instrument A at
  101/99 and at 0), and a first quote without prices.
\<close>

definition row_A :: "int Row" where
  "row_A =
     \<lparr> price_abc = js_lit 100 1, price_def = js_lit 50 1, ratio = js_lit 2 1,
       timestamp = 7, upper_bound = js_lit 105 100, lower_bound = js_lit 95 100,
       trigger_alert = Some (js_lit 2 1) \<rparr>"

definition row_B :: "int Row" where
  "row_B =
     \<lparr> price_abc = js_lit 100 1, price_def = js_lit 100 1, ratio = js_lit 1 1,
       timestamp = 5, upper_bound = js_lit 105 100, lower_bound = js_lit 95 100,
       trigger_alert = None \<rparr>"

definition row_C :: "int Row" where
  "row_C =
     \<lparr> price_abc = js_lit 103 1, price_def = js_lit 100 1, ratio = js_lit 103 100,
       timestamp = 9, upper_bound = js_lit 105 100, lower_bound = js_lit 95 100,
       trigger_alert = None \<rparr>"

definition row_D_infinity :: "int Row" where
  "row_D_infinity =
     \<lparr> price_abc = js_lit 100 1, price_def = js_lit 0 1, ratio = js_infinity False,
       timestamp = 7, upper_bound = js_lit 105 100, lower_bound = js_lit 95 100,
       trigger_alert = Some (js_infinity False) \<rparr>"

definition row_D_nan :: "int Row" where
  "row_D_nan =
     \<lparr> price_abc = js_lit 0 1, price_def = js_lit 0 1, ratio = js_nan,
       timestamp = 7, upper_bound = js_lit 105 100, lower_bound = js_lit 95 100,
       trigger_alert = None \<rparr>"

definition row_unpriced :: "int Row" where
  "row_unpriced =
     \<lparr> price_abc = js_nan, price_def = js_lit 50 1, ratio = js_nan,
       timestamp = 7, upper_bound = js_lit 105 100, lower_bound = js_lit 95 100,
       trigger_alert = None \<rparr>"

text \<open>
  The spec's words for an ill-formed element, "lacks required price fields": the ask
  price or the bid price cannot be read from it.
\<close>

definition lacks_price_fields :: "'t ServerRespond \<Rightarrow> bool" where
  "lacks_price_fields q \<longleftrightarrow>
     (case top_ask q of None \<Rightarrow> True | Some ord \<Rightarrow> price ord = None) \<or>
     (case top_bid q of None \<Rightarrow> True | Some ord \<Rightarrow> price ord = None)"

text \<open>A component whose table exists and has received nothing, and one without a table.\<close>

definition fresh_graph :: "int Graph" where
  "fresh_graph = \<lparr> table = Some \<lparr> schema = the_schema, updates = [] \<rparr> \<rparr>"

definition tableless_graph :: "int Graph" where
  "tableless_graph = \<lparr> table = None \<rparr>"

definition blank_viewer :: PerspectiveViewerElement where
  "blank_viewer = \<lparr> loaded = False, attributes = Map.empty \<rparr>"

text \<open>
  Two worlds that hold the quotes of scenario A: at addresses 1 and 2 behind every
  array, and at addresses 4 and 3 behind the array at address 7 only.
\<close>

definition world_A :: "int world" where
  "world_A = \<lparr> arrays = (\<lambda>a. [1, 2]),
               quotes = (\<lambda>a. if a = 1 then quote 101 99 5 else quote 50 50 7) \<rparr>"

definition world_B :: "int world" where
  "world_B = \<lparr> arrays = (\<lambda>a. if a = 7 then [4, 3] else []),
               quotes = (\<lambda>a. if a = 4 then quote 101 99 5 else
                              if a = 3 then quote 50 50 7 else unpriced_quote 0) \<rparr>"

section \<open>Evaluating numbers\<close>

text \<open>
  Closed terms are evaluated by rewriting with the definitions. Under the weak
  congruence rule for \<open>let\<close> a bound value is computed before it is substituted,
  which keeps the numerals small.
\<close>

lemma Let_Double: "Let (Double s e f) g = g (Double s e f)"
  by simp

lemmas fp_eval =
  js_add_def js_sub_def js_div_def js_lt_def js_gt_def js_lit_def js_nan_def
  round_fp_def floor_log2_def round_half_even_def decode_def compute_floorlog
  signed_int_def Let_Double

lemma lit_1: "js_lit 1 1 = Double False 1023 0"
  by (simp add: fp_eval cong: let_weak_cong)

lemma lit_2: "js_lit 2 1 = Double False 1024 0"
  by (simp add: fp_eval cong: let_weak_cong)

lemma lit_0_05: "js_lit 5 100 = Double False 1018 0x999999999999A"
  by (simp add: fp_eval cong: let_weak_cong)

lemma lit_1_05: "js_lit 105 100 = Double False 1023 0xCCCCCCCCCCCD"
  by (simp add: fp_eval cong: let_weak_cong)

lemma lit_0_95: "js_lit 95 100 = Double False 1022 0xE666666666666"
  by (simp add: fp_eval cong: let_weak_cong)

text \<open>
  The bit patterns above are the ones of the standard: \<open>1.05\<close> is
  \<open>0x3FF0CCCCCCCCCCCD\<close>, \<open>0.95\<close> is \<open>0x3FEE666666666666\<close> and \<open>0.05\<close> is
  \<open>0x3FA999999999999A\<close>. The bounds that the code computes, \<open>1 + 0.05\<close> and
  \<open>1 - 0.05\<close>, round to the literals \<open>1.05\<close> and \<open>0.95\<close>, and these add up to
  \<open>2\<close> without a rounding error.
\<close>

lemma one_plus_0_05: "js_add (js_lit 1 1) (js_lit 5 100) = js_lit 105 100"
  unfolding lit_1 lit_0_05 lit_1_05 by (simp add: fp_eval cong: let_weak_cong)

lemma one_minus_0_05: "js_sub (js_lit 1 1) (js_lit 5 100) = js_lit 95 100"
  unfolding lit_1 lit_0_05 lit_0_95 by (simp add: fp_eval cong: let_weak_cong)

lemma bounds_sum: "js_add (js_lit 105 100) (js_lit 95 100) = js_lit 2 1"
  unfolding lit_2 lit_1_05 lit_0_95 by (simp add: fp_eval cong: let_weak_cong)

lemma decode_1_05: "decode (js_lit 105 100) = Fin False 4728779608739021 (- 52)"
  unfolding lit_1_05 by (simp add: decode_def)

lemma decode_0_95: "decode (js_lit 95 100) = Fin False 8556839292003942 (- 53)"
  unfolding lit_0_95 by (simp add: decode_def)

lemma decode_infinity: "decode (js_infinity s) = Infty s"
  by (simp add: js_infinity_def decode_def)

lemma decode_js_nan: "decode js_nan = NaN"
  by (simp add: js_nan_def decode_def)

lemma classify_nan: "is_nan js_nan" "\<not> is_finite js_nan"
  by (simp_all add: is_nan_def is_finite_def decode_js_nan)

lemma classify_infinity: "\<not> is_nan (js_infinity s)" "\<not> is_finite (js_infinity s)"
  by (simp_all add: is_nan_def is_finite_def decode_infinity)

subsection \<open>Division by zero and comparison with the bounds\<close>

lemma is_zero_decode: "is_zero b \<Longrightarrow> \<exists>s e. decode b = Fin s 0 e"
  by (cases "decode b") (simp_all add: is_zero_def)

lemma js_div_by_zero:
  assumes "is_zero b"
  shows "js_div a b = js_nan \<and> (is_zero a \<or> is_nan a) \<or>
         (\<exists>s. js_div a b = js_infinity s) \<and> \<not> (is_zero a \<or> is_nan a)"
proof -
  from assms obtain s e where b: "decode b = Fin s 0 e"
    using is_zero_decode by blast
  show ?thesis
    by (cases "decode a") (auto simp: js_div_def b is_zero_def is_nan_def js_nan_def js_infinity_def)
qed

lemma infinity_crosses_a_bound:
  "js_gt (js_infinity s) (js_lit 105 100) \<or> js_lt (js_infinity s) (js_lit 95 100)"
  by (cases s) (simp_all add: js_gt_def js_lt_def decode_infinity decode_1_05 decode_0_95)

lemma nan_crosses_no_bound: "\<not> js_gt js_nan y" "\<not> js_lt js_nan y"
  by (cases "decode y"; simp add: js_gt_def js_lt_def decode_js_nan)+

section \<open>The reducer, case by case\<close>

lemma js_error_eq: "(err :: js_error) = err'"
  by (cases err; cases err') simp

lemma price_at_Inr:
  "price_at sr i side = Inr p \<longleftrightarrow>
     i < length sr \<and> (\<exists>ord. side (sr ! i) = Some ord \<and> p = price ord)"
  by (auto simp: price_at_def js_index_def split: option.splits)

lemma price_at_Inl:
  "price_at sr i side = Inl err \<longleftrightarrow> length sr \<le> i \<or> side (sr ! i) = None"
  by (auto simp: price_at_def js_index_def js_error_eq split: option.splits)

lemma mid_price_Inr:
  "mid_price sr i = Inr p \<longleftrightarrow>
     i < length sr \<and>
     (\<exists>a b. top_ask (sr ! i) = Some a \<and> top_bid (sr ! i) = Some b \<and>
        p = js_div (js_add (to_number (price a)) (to_number (price b))) (js_lit 2 1))"
  unfolding mid_price_def
  by (auto simp: price_at_Inr price_at_Inl split: sum.splits)

lemma mid_price_Inl:
  "mid_price sr i = Inl err \<longleftrightarrow>
     length sr \<le> i \<or> top_ask (sr ! i) = None \<or> top_bid (sr ! i) = None"
  unfolding mid_price_def
  by (auto simp: price_at_Inr price_at_Inl js_error_eq split: sum.splits)

lemma generateRow_Inr:
  "generateRow sr = Inr r \<longleftrightarrow>
     (\<exists>pa pb. mid_price sr 0 = Inr pa \<and> mid_price sr 1 = Inr pb \<and>
        r = \<lparr> price_abc = pa, price_def = pb, ratio = js_div pa pb,
              timestamp =
                (if ServerRespond.timestamp (sr ! 0) > ServerRespond.timestamp (sr ! 1)
                 then ServerRespond.timestamp (sr ! 0) else ServerRespond.timestamp (sr ! 1)),
              upper_bound = js_lit 105 100, lower_bound = js_lit 95 100,
              trigger_alert =
                (if js_gt (js_div pa pb) (js_lit 105 100) \<or> js_lt (js_div pa pb) (js_lit 95 100)
                 then Some (js_div pa pb) else None) \<rparr>)"
  unfolding generateRow_def one_plus_0_05 one_minus_0_05 Let_def
  by (cases "mid_price sr 0"; cases "mid_price sr 1") auto

lemma generateRow_Inl:
  "generateRow sr = Inl err \<longleftrightarrow> mid_price sr 0 = Inl err \<or> mid_price sr 1 = Inl err"
  unfolding generateRow_def Let_def
  by (cases "mid_price sr 0"; cases "mid_price sr 1") (auto simp: js_error_eq)

lemma generateRow_fields:
  assumes "generateRow sr = Inr r"
  obtains pa pb where "mid_price sr 0 = Inr pa" and "mid_price sr 1 = Inr pb"
    and "price_abc r = pa" and "price_def r = pb" and "ratio r = js_div pa pb"
    and "Row.timestamp r =
           (if ServerRespond.timestamp (sr ! 0) > ServerRespond.timestamp (sr ! 1)
            then ServerRespond.timestamp (sr ! 0) else ServerRespond.timestamp (sr ! 1))"
    and "upper_bound r = js_lit 105 100" and "lower_bound r = js_lit 95 100"
    and "trigger_alert r =
           (if js_gt (ratio r) (js_lit 105 100) \<or> js_lt (ratio r) (js_lit 95 100)
            then Some (ratio r) else None)"
proof -
  from assms obtain pa where pa: "mid_price sr 0 = Inr pa"
    by (cases "mid_price sr 0") (simp_all add: generateRow_def)
  from assms pa obtain pb where pb: "mid_price sr 1 = Inr pb"
    by (cases "mid_price sr 1") (simp_all add: generateRow_def)
  from assms have r: "r = \<lparr> price_abc = pa, price_def = pb, ratio = js_div pa pb,
              timestamp =
                (if ServerRespond.timestamp (sr ! 0) > ServerRespond.timestamp (sr ! 1)
                 then ServerRespond.timestamp (sr ! 0) else ServerRespond.timestamp (sr ! 1)),
              upper_bound = js_lit 105 100, lower_bound = js_lit 95 100,
              trigger_alert =
                (if js_gt (js_div pa pb) (js_lit 105 100) \<or> js_lt (js_div pa pb) (js_lit 95 100)
                 then Some (js_div pa pb) else None) \<rparr>"
    unfolding generateRow_def pa pb one_plus_0_05 one_minus_0_05 Let_def by simp
  show ?thesis
    by (rule that [OF pa pb]) (simp_all add: r)
qed

lemma mid_price_cong:
  assumes "i < length sr" and "i < length sr'" and "sr ! i = sr' ! i"
  shows "mid_price sr i = mid_price sr' i"
proof -
  have same: "price_at sr i side = price_at sr' i side" for side
    using assms by (simp add: price_at_def js_index_def)
  show ?thesis
    unfolding mid_price_def same by (rule refl)
qed

section \<open>The scenarios of the spec\<close>

lemmas row_eval =
  js_infinity_def generateRow_def mid_price_def price_at_def js_index_def quote_def
  unpriced_quote_def to_number_def

lemma scenario_A: "generateRow [quote 101 99 5, quote 50 50 7] = Inr row_A"
  by (simp add: row_A_def row_eval fp_eval cong: let_weak_cong)

lemma scenario_B: "generateRow [quote 100 100 5, quote 100 100 5] = Inr row_B"
  by (simp add: row_B_def row_eval fp_eval cong: let_weak_cong)

lemma scenario_C: "generateRow [quote 104 102 9, quote 100 100 7] = Inr row_C"
  by (simp add: row_C_def row_eval fp_eval cong: let_weak_cong)

lemma scenario_D_infinity: "generateRow [quote 101 99 5, quote 0 0 7] = Inr row_D_infinity"
  by (simp add: row_D_infinity_def row_eval fp_eval cong: let_weak_cong)

lemma scenario_D_nan: "generateRow [quote 0 0 5, quote 0 0 7] = Inr row_D_nan"
  by (simp add: row_D_nan_def row_eval fp_eval cong: let_weak_cong)

lemma scenario_unpriced: "generateRow [unpriced_quote 5, quote 50 50 7] = Inr row_unpriced"
  by (simp add: row_unpriced_def row_eval fp_eval cong: let_weak_cong)

section \<open>The reducer on the heap, read by read\<close>

lemma js_index_map: "js_index (map f xs) i = map_option f (js_index xs i)"
  by (simp add: js_index_def)

lemma price_at_heap_eq:
  "price_at_heap a i side w = (price_at (map (quotes w) (arrays w a)) i side, w)"
  by (simp add: price_at_heap_def price_at_def js_bind_def read_element_def read_property_def
      read_price_def js_throw_def js_return_def js_index_map split: option.splits)

lemma mid_price_heap_eq:
  "mid_price_heap a i w = (mid_price (map (quotes w) (arrays w a)) i, w)"
  by (simp add: mid_price_heap_def mid_price_def js_bind_def price_at_heap_eq js_return_def
      split: sum.splits)

lemma timestamp_heap_eq:
  assumes "i < length (arrays w a)"
  shows "timestamp_heap a i w = (Inr (ServerRespond.timestamp (map (quotes w) (arrays w a) ! i)), w)"
  using assms
  by (simp add: timestamp_heap_def js_bind_def read_element_def read_property_def js_index_def)

lemma generateRow_heap_eq:
  "generateRow_heap a w = (generateRow (map (quotes w) (arrays w a)), w)"
proof -
  let ?sr = "map (quotes w) (arrays w a)"
  let ?t0 = "ServerRespond.timestamp (?sr ! 0)" and ?t1 = "ServerRespond.timestamp (?sr ! 1)"
  show ?thesis
  proof (cases "mid_price ?sr 0")
    case (Inl err)
    then have "mid_price_heap a 0 w = (Inl err, w)"
      by (simp only: mid_price_heap_eq)
    with Inl show ?thesis
      by (simp only: generateRow_heap_def generateRow_def js_bind_def prod.case sum.case)
  next
    case pa: (Inr priceABC)
    then have m0: "mid_price_heap a 0 w = (Inr priceABC, w)"
      by (simp only: mid_price_heap_eq)
    show ?thesis
    proof (cases "mid_price ?sr 1")
      case (Inl err)
      then have "mid_price_heap a 1 w = (Inl err, w)"
        by (simp only: mid_price_heap_eq)
      with Inl pa m0 show ?thesis
        by (simp only: generateRow_heap_def generateRow_def js_bind_def prod.case sum.case)
    next
      case pb: (Inr priceDEF)
      then have m1: "mid_price_heap a 1 w = (Inr priceDEF, w)"
        by (simp only: mid_price_heap_eq)
      from pb have "1 < length ?sr"
        by (simp add: mid_price_Inr)
      then have len: "0 < length (arrays w a)" "1 < length (arrays w a)"
        by auto
      have t0: "timestamp_heap a 0 w = (Inr ?t0, w)"
        by (rule timestamp_heap_eq [OF len(1)])
      have t1: "timestamp_heap a 1 w = (Inr ?t1, w)"
        by (rule timestamp_heap_eq [OF len(2)])
      have t2: "(if ?t0 > ?t1 then timestamp_heap a 0 else timestamp_heap a 1) w
          = (Inr (if ?t0 > ?t1 then ?t0 else ?t1), w)"
        by (cases "?t0 > ?t1") (simp_all only: if_True if_False t0 t1)
      show ?thesis
        by (simp only: generateRow_heap_def generateRow_def js_bind_def Let_def
            m0 m1 t0 t1 t2 pa pb prod.case sum.case js_return_def)
    qed
  qed
qed

section \<open>The update of the component, case by case\<close>

lemma componentDidUpdate_table:
  assumes "table this = Some t" and "generateRow data = Inr row"
  shows "componentDidUpdate data this =
           Inr (this\<lparr>table := Some (t\<lparr>updates := updates t @ [[row]]\<rparr>)\<rparr>)"
  using assms by (simp add: componentDidUpdate_def)

lemma componentDidUpdate_no_table:
  assumes "table this = None"
  shows "componentDidUpdate data this = Inr this"
  using assms by (simp add: componentDidUpdate_def)

lemma componentDidUpdate_throws:
  assumes "table this = Some t" and "generateRow data = Inl err"
  shows "componentDidUpdate data this = Inl err"
  using assms by (simp add: componentDidUpdate_def)

section \<open>The claims\<close>

text \<open>
  C1. For every quote pair the alert is present exactly when the ratio is greater
  than \<open>1.05\<close> or less than \<open>0.95\<close>, under the comparison of the language; when
  present it is the ratio itself, and when absent it is \<open>undefined\<close> (\<open>None\<close>), which
  is no number at all.
\<close>

theorem trigger_alert_iff_out_of_bounds:
  assumes "generateRow sr = Inr r"
  shows "(trigger_alert r \<noteq> None \<longleftrightarrow>
            js_gt (ratio r) (js_lit 105 100) \<or> js_lt (ratio r) (js_lit 95 100)) \<and>
         (trigger_alert r \<noteq> None \<longrightarrow> trigger_alert r = Some (ratio r))"
proof -
  from assms have "trigger_alert r =
      (if js_gt (ratio r) (js_lit 105 100) \<or> js_lt (ratio r) (js_lit 95 100)
       then Some (ratio r) else None)"
    by (rule generateRow_fields)
  then show ?thesis
    by (simp split: if_splits)
qed

theorem trigger_alert_iff_out_of_bounds_witness:
  "generateRow [quote 101 99 5, quote 50 50 7] = Inr row_A \<and>
   trigger_alert row_A = Some (ratio row_A) \<and>
   (js_gt (ratio row_A) (js_lit 105 100) \<or> js_lt (ratio row_A) (js_lit 95 100))"
proof -
  have "trigger_alert row_A \<noteq> None"
    by (simp add: row_A_def)
  with trigger_alert_iff_out_of_bounds [OF scenario_A] show ?thesis
    by (simp add: scenario_A)
qed

text \<open>
  C2. For every quote pair, \<open>price_abc\<close> is the sum of the ask and the bid of the
  first quote divided by two, \<open>price_def\<close> the same for the second quote, and the
  ratio is \<open>price_abc\<close> divided by \<open>price_def\<close>, each operation rounded as the
  language rounds it.
\<close>

theorem mid_prices_and_ratio:
  assumes "generateRow sr = Inr r"
  shows "\<exists>a0 b0 a1 b1.
           top_ask (sr ! 0) = Some a0 \<and> top_bid (sr ! 0) = Some b0 \<and>
           top_ask (sr ! 1) = Some a1 \<and> top_bid (sr ! 1) = Some b1 \<and>
           price_abc r = js_div (js_add (to_number (price a0)) (to_number (price b0))) (js_lit 2 1) \<and>
           price_def r = js_div (js_add (to_number (price a1)) (to_number (price b1))) (js_lit 2 1) \<and>
           ratio r = js_div (price_abc r) (price_def r)"
proof -
  from assms obtain pa pb where "mid_price sr 0 = Inr pa" and "mid_price sr 1 = Inr pb"
    and "price_abc r = pa" and "price_def r = pb" and "ratio r = js_div pa pb"
    by (rule generateRow_fields)
  then show ?thesis
    by (auto simp: mid_price_Inr)
qed

theorem mid_prices_and_ratio_witness:
  "generateRow [quote 104 102 9, quote 100 100 7] = Inr row_C \<and>
   ratio row_C = js_div (price_abc row_C) (price_def row_C)"
proof -
  from mid_prices_and_ratio [OF scenario_C]
  have "ratio row_C = js_div (price_abc row_C) (price_def row_C)"
    by blast
  with scenario_C show ?thesis
    by simp
qed

text \<open>
  C3. For every quote pair the timestamp of the row is the maximum of the two
  timestamps; when the two are equal it equals both.
\<close>

theorem row_timestamp_is_max:
  assumes "generateRow sr = Inr r"
  shows "Row.timestamp r = max (ServerRespond.timestamp (sr ! 0)) (ServerRespond.timestamp (sr ! 1)) \<and>
         (ServerRespond.timestamp (sr ! 0) = ServerRespond.timestamp (sr ! 1) \<longrightarrow>
            Row.timestamp r = ServerRespond.timestamp (sr ! 0) \<and>
            Row.timestamp r = ServerRespond.timestamp (sr ! 1))"
proof -
  from assms have "Row.timestamp r =
      (if ServerRespond.timestamp (sr ! 0) > ServerRespond.timestamp (sr ! 1)
       then ServerRespond.timestamp (sr ! 0) else ServerRespond.timestamp (sr ! 1))"
    by (rule generateRow_fields)
  then show ?thesis
    by (auto simp: max_def)
qed

theorem row_timestamp_is_max_witness:
  "generateRow [quote 104 102 9, quote 100 100 7] = Inr row_C \<and>
   Row.timestamp row_C = max 9 7"
proof -
  from row_timestamp_is_max [OF scenario_C]
  have "Row.timestamp row_C = max 9 7"
    by (simp add: quote_def)
  with scenario_C show ?thesis
    by simp
qed

text \<open>
  C4, as the code has it. The reducer validates nothing and defines no error of its
  own. It fails, with the TypeError of the language and without a row, exactly when
  there are fewer than two elements or one of the first two has no \<open>top_ask\<close> or no
  \<open>top_bid\<close> object. An order object without a price is no failure.
\<close>

theorem fails_iff_pair_incomplete:
  "generateRow sr = Inl TypeError \<longleftrightarrow>
     length sr < 2 \<or>
     top_ask (sr ! 0) = None \<or> top_bid (sr ! 0) = None \<or>
     top_ask (sr ! 1) = None \<or> top_bid (sr ! 1) = None"
  unfolding generateRow_Inl mid_price_Inl by arith

theorem fails_iff_pair_incomplete_witness:
  "generateRow [quote 101 99 5] = Inl TypeError"
  using fails_iff_pair_incomplete [of "[quote 101 99 5]"] by simp

text \<open>
  Against C4 as stated: the first element below lacks both price fields, and the
  reducer returns a row, whose prices are NaN.
\<close>

theorem unpriced_quote_yields_a_row:
  "lacks_price_fields (unpriced_quote 5) \<and>
   generateRow [unpriced_quote 5, quote 50 50 7] = Inr row_unpriced"
  by (simp add: scenario_unpriced) (simp add: lacks_price_fields_def unpriced_quote_def)

text \<open>
  C5, as the code has it. When the mid-price of the second instrument is zero the
  reducer returns a row whose ratio is not finite. The ratio is NaN exactly when the
  mid-price of the first instrument is zero or NaN, and then there is no alert, since
  every comparison with NaN is false; otherwise the ratio is an infinity, and the alert
  is present and is that infinity.
\<close>

theorem zero_divisor_ratio:
  assumes "mid_price sr 0 = Inr pa" and "mid_price sr 1 = Inr pb" and "is_zero pb"
  shows "\<exists>r. generateRow sr = Inr r \<and> price_abc r = pa \<and> price_def r = pb \<and>
           \<not> is_finite (ratio r) \<and>
           (is_nan (ratio r) \<longleftrightarrow> is_zero pa \<or> is_nan pa) \<and>
           trigger_alert r = (if is_nan (ratio r) then None else Some (ratio r))"
proof -
  from assms(1,2) obtain r where r: "generateRow sr = Inr r"
    and pa: "price_abc r = pa" and pb: "price_def r = pb"
    and ratio: "ratio r = js_div pa pb"
    and alert: "trigger_alert r =
      (if js_gt (js_div pa pb) (js_lit 105 100) \<or> js_lt (js_div pa pb) (js_lit 95 100)
       then Some (js_div pa pb) else None)"
    by (simp add: generateRow_Inr)
  from js_div_by_zero [OF assms(3), of pa]
  consider "js_div pa pb = js_nan" "is_zero pa \<or> is_nan pa"
    | s where "js_div pa pb = js_infinity s" "\<not> (is_zero pa \<or> is_nan pa)"
    by blast
  then have "\<not> is_finite (ratio r) \<and>
           (is_nan (ratio r) \<longleftrightarrow> is_zero pa \<or> is_nan pa) \<and>
           trigger_alert r = (if is_nan (ratio r) then None else Some (ratio r))"
  proof cases
    case 1
    then show ?thesis
      by (simp add: ratio alert classify_nan nan_crosses_no_bound)
  next
    case 2
    then show ?thesis
      using infinity_crosses_a_bound [of s]
      by (simp add: ratio alert classify_infinity)
  qed
  with r pa pb show ?thesis by blast
qed

theorem zero_divisor_ratio_witness:
  "mid_price [quote 101 99 5, quote 0 0 7] 0 = Inr (js_lit 100 1) \<and>
   mid_price [quote 101 99 5, quote 0 0 7] 1 = Inr (js_lit 0 1) \<and>
   is_zero (js_lit 0 1) \<and>
   (\<exists>r. generateRow [quote 101 99 5, quote 0 0 7] = Inr r \<and>
      \<not> is_finite (ratio r) \<and> trigger_alert r = Some (ratio r))"
proof -
  let ?sr = "[quote 101 99 5, quote 0 0 7]"
  have a: "mid_price ?sr 0 = Inr (js_lit 100 1)"
    by (simp add: row_eval fp_eval cong: let_weak_cong)
  have b: "mid_price ?sr 1 = Inr (js_lit 0 1)"
    by (simp add: row_eval fp_eval cong: let_weak_cong)
  have z: "is_zero (js_lit 0 1)"
    by (simp add: is_zero_def fp_eval cong: let_weak_cong)
  have n: "\<not> (is_zero (js_lit 100 1) \<or> is_nan (js_lit 100 1))"
    by (simp add: is_zero_def is_nan_def fp_eval cong: let_weak_cong)
  from zero_divisor_ratio [OF a b z] n a b z show ?thesis
    by auto
qed

text \<open>
  Against C5 as stated: with all four prices zero the ratio is NaN and the alert is
  absent.
\<close>

theorem zero_over_zero_raises_no_alert:
  "generateRow [quote 0 0 5, quote 0 0 7] = Inr row_D_nan \<and>
   is_zero (price_def row_D_nan) \<and> is_nan (ratio row_D_nan) \<and>
   trigger_alert row_D_nan = None"
proof -
  have "is_zero (js_lit 0 1)"
    by (simp add: is_zero_def fp_eval cong: let_weak_cong)
  then show ?thesis
    by (simp add: scenario_D_nan) (simp add: row_D_nan_def classify_nan)
qed

text \<open>
  C6. Every row has the upper bound \<open>1.05\<close> and the lower bound \<open>0.95\<close>,
  whatever the input, and the two add up to \<open>2\<close>.
\<close>

theorem bounds_are_constants:
  assumes "generateRow sr = Inr r"
  shows "upper_bound r = js_lit 105 100 \<and> lower_bound r = js_lit 95 100 \<and>
         js_add (upper_bound r) (lower_bound r) = js_lit 2 1"
proof -
  from assms have "upper_bound r = js_lit 105 100"
    by (rule generateRow_fields)
  moreover from assms have "lower_bound r = js_lit 95 100"
    by (rule generateRow_fields)
  ultimately show ?thesis
    by (simp add: bounds_sum)
qed

theorem bounds_are_constants_witness:
  "generateRow [quote 100 100 5, quote 100 100 5] = Inr row_B \<and>
   upper_bound row_B = js_lit 105 100 \<and> lower_bound row_B = js_lit 95 100 \<and>
   js_add (upper_bound row_B) (lower_bound row_B) = js_lit 2 1"
  using bounds_are_constants [OF scenario_B] scenario_B by blast

text \<open>
  C7. The reducer is pure and deterministic. Run on the heap, it returns the world
  exactly as it found it, whether it returns a row or throws, so it writes nothing and
  keeps nothing; its result is the function \<open>generateRow\<close> of the quotes that the
  array refers to and of nothing else in the world. Hence two invocations on identical
  quotes, in any two worlds and at any addresses, return identical results, and a
  second call after a first returns the same again.
\<close>

theorem generateRow_leaves_the_heap:
  fixes w :: "('t::linorder, 'z) world_scheme" and w' :: "('t, 'y) world_scheme"
  shows "snd (generateRow_heap a w) = w \<and>
         fst (generateRow_heap a w) = generateRow (map (quotes w) (arrays w a)) \<and>
         (map (quotes w') (arrays w' a') = map (quotes w) (arrays w a) \<longrightarrow>
            fst (generateRow_heap a' w') = fst (generateRow_heap a w)) \<and>
         generateRow_heap a (snd (generateRow_heap a w)) = generateRow_heap a w"
  by (simp add: generateRow_heap_eq)

theorem generateRow_leaves_the_heap_witness:
  "map (quotes world_B) (arrays world_B 7) = map (quotes world_A) (arrays world_A 0) \<and>
   fst (generateRow_heap 7 world_B) = fst (generateRow_heap 0 world_A) \<and>
   fst (generateRow_heap 0 world_A) = Inr row_A \<and>
   snd (generateRow_heap 0 world_A) = world_A"
proof -
  have same: "map (quotes world_B) (arrays world_B 7) = map (quotes world_A) (arrays world_A 0)"
    by (simp add: world_A_def world_B_def)
  have "map (quotes world_A) (arrays world_A 0) = [quote 101 99 5, quote 50 50 7]"
    by (simp add: world_A_def)
  with generateRow_leaves_the_heap [of 0 world_A world_B 7] same scenario_A show ?thesis
    by simp
qed

text \<open>
  C8. When perspective is available, mounting creates the table from a schema that
  gives each of the seven fields of \<open>Row\<close> a type, \<open>date\<close> for the timestamp (the
  spec's datetime) and \<open>float\<close> for the six numbers; the only row pivot is the
  timestamp; every number is aggregated by \<open>avg\<close> and the timestamp by
  \<open>distinct count\<close>; the columns shown are \<open>ratio\<close>, \<open>lower_bound\<close>,
  \<open>upper_bound\<close> and \<open>trigger_alert\<close>.
\<close>

theorem view_configuration:
  "table (fst (componentDidMount True (this, elem))) =
     Some \<lparr>schema = the_schema, updates = []\<rparr> \<and>
   loaded (snd (componentDidMount True (this, elem))) \<and>
   map fst Row_fields =
     [''price_abc'', ''price_def'', ''ratio'', ''timestamp'', ''upper_bound'',
      ''lower_bound'', ''trigger_alert''] \<and>
   set (map fst the_schema) = set (map fst Row_fields) \<and>
   (\<forall>(f, ty) \<in> set Row_fields.
      map_of the_schema f = Some (if ty = TDate then ''date'' else ''float'') \<and>
      aggregate_of (snd (componentDidMount True (this, elem))) f =
        Some (JString (if ty = TDate then ''distinct count'' else ''avg''))) \<and>
   attributes (snd (componentDidMount True (this, elem))) ''row-pivots'' =
     Some (JArray [JString ''timestamp'']) \<and>
   attributes (snd (componentDidMount True (this, elem))) ''columns'' =
     Some (JArray [JString ''ratio'', JString ''lower_bound'', JString ''upper_bound'',
                   JString ''trigger_alert''])"
  by (auto simp: componentDidMount_def Let_def the_schema_def Row_fields_def aggregate_of_def)

theorem view_configuration_witness:
  "(''ratio'', TNumber) \<in> set Row_fields \<and>
   (''timestamp'', TDate) \<in> set Row_fields \<and>
   map_of the_schema ''ratio'' = Some ''float'' \<and>
   map_of the_schema ''timestamp'' = Some ''date'' \<and>
   aggregate_of (snd (componentDidMount True (tableless_graph, blank_viewer))) ''ratio'' =
     Some (JString ''avg'') \<and>
   aggregate_of (snd (componentDidMount True (tableless_graph, blank_viewer))) ''timestamp'' =
     Some (JString ''distinct count'')"
proof -
  have "(''ratio'', TNumber) \<in> set Row_fields" and "(''timestamp'', TDate) \<in> set Row_fields"
    by (simp_all add: Row_fields_def)
  with view_configuration [of tableless_graph blank_viewer] show ?thesis
    by fastforce
qed

text \<open>
  C9, as the code has it. A tick at which the table exists and the reducer returns a
  row passes exactly one batch to \<open>update\<close>, and the batch is that one row. Without
  a table nothing is submitted; when the reducer throws, the error propagates and
  nothing is submitted.
\<close>

theorem update_submits_one_batch:
  "(table this \<noteq> None \<and> generateRow data = Inr row \<longrightarrow>
      (\<exists>this'. componentDidUpdate data this = Inr this' \<and>
         submitted this' = submitted this @ [[row]])) \<and>
   (table this = None \<longrightarrow> componentDidUpdate data this = Inr this \<and> submitted this = []) \<and>
   (table this \<noteq> None \<and> generateRow data = Inl err \<longrightarrow> componentDidUpdate data this = Inl err)"
  by (auto simp: componentDidUpdate_table componentDidUpdate_no_table
      componentDidUpdate_throws submitted_def)

theorem update_submits_one_batch_witness:
  "table fresh_graph \<noteq> None \<and>
   generateRow [quote 101 99 5, quote 50 50 7] = Inr row_A \<and>
   (\<exists>this'. componentDidUpdate [quote 101 99 5, quote 50 50 7] fresh_graph = Inr this' \<and>
      submitted this' = submitted fresh_graph @ [[row_A]])"
proof -
  have "table fresh_graph \<noteq> None"
    by (simp add: fresh_graph_def)
  with update_submits_one_batch [of fresh_graph "[quote 101 99 5, quote 50 50 7]" row_A]
    scenario_A
  show ?thesis by simp
qed

text \<open>
  Against C9 as stated: a tick of a component without a table submits nothing, and a
  tick with an empty \<open>data\<close> throws before anything is submitted.
\<close>

theorem tick_without_table_submits_nothing:
  "componentDidUpdate [quote 101 99 5, quote 50 50 7] tableless_graph = Inr tableless_graph \<and>
   submitted tableless_graph = [] \<and>
   componentDidUpdate [] fresh_graph = Inl TypeError"
  by (simp add: componentDidUpdate_def tableless_graph_def fresh_graph_def submitted_def
      generateRow_def mid_price_def price_at_def js_index_def)

text \<open>
  C10. With at least two elements, only the first two matter: inputs that agree
  there give the same result, so further elements change nothing and cause no error.
\<close>

theorem only_first_two_elements_matter:
  assumes "2 \<le> length sr" and "2 \<le> length sr'"
    and "sr ! 0 = sr' ! 0" and "sr ! 1 = sr' ! 1"
  shows "generateRow sr = generateRow sr'"
proof -
  have same: "mid_price sr 0 = mid_price sr' 0" "mid_price sr 1 = mid_price sr' 1"
    using assms by (auto intro: mid_price_cong)
  show ?thesis
    unfolding generateRow_def same assms(3) assms(4) by (rule refl)
qed

theorem only_first_two_elements_matter_witness:
  "generateRow [quote 101 99 5, quote 50 50 7, unpriced_quote 8] =
     generateRow [quote 101 99 5, quote 50 50 7] \<and>
   generateRow [quote 101 99 5, quote 50 50 7, unpriced_quote 8] = Inr row_A"
  using only_first_two_elements_matter
    [of "[quote 101 99 5, quote 50 50 7, unpriced_quote 8]" "[quote 101 99 5, quote 50 50 7]"]
  by (simp add: scenario_A)

end
